theory Spec2Isabelle
  imports Main
begin

section \<open>Reactions: wire values and domain objects\<close>

text \<open>
  A shallow embedding of \<^verbatim>\<open>pyrogram/types/messages_and_media/reaction.py\<close>.
  Python classes are records, the dynamic class of a \<^verbatim>\<open>ReactionType\<close> object is a
  field of its record, an attribute that may hold \<^verbatim>\<open>None\<close> is an \<open>option\<close>, Python's
  unbounded integers are \<open>int\<close>, and every exception the module can raise is a value of
  the type \<open>error\<close>, returned on the left of a sum.
\<close>

subsection \<open>The wire side\<close>

text \<open>
  Modelled from the spec: the wire constructors \<^verbatim>\<open>raw.types.ReactionEmpty\<close>,
  \<^verbatim>\<open>raw.types.ReactionEmoji\<close>, \<^verbatim>\<open>raw.types.ReactionCustomEmoji\<close>,
  \<^verbatim>\<open>raw.types.ReactionPaid\<close> and \<^verbatim>\<open>raw.types.ReactionCount\<close> are imported by the
  module (\<^verbatim>\<open>from pyrogram import raw\<close>), not defined in it. The spec lists them as
  \<^verbatim>\<open>ReactionEmpty\<close> (no fields), \<^verbatim>\<open>ReactionEmoji { emoticon: string }\<close>,
  \<^verbatim>\<open>ReactionCustomEmoji { document_id: 64-bit integer }\<close>, \<^verbatim>\<open>ReactionPaid\<close> (no
  fields) and \<^verbatim>\<open>ReactionCount { reaction, count: integer, chosen_order: integer }\<close>,
  the last field absent when the viewer did not pick the reaction. The module copies
  \<^verbatim>\<open>emoticon\<close> and \<^verbatim>\<open>document_id\<close> from and to domain attributes whose default is
  \<^verbatim>\<open>None\<close>, so both are optional here. \<open>raw_Other\<close> stands for every object of another
  class, named by its tag: all \<^verbatim>\<open>isinstance\<close> tests of the module fail on it.
\<close>

datatype raw_Reaction =
    raw_ReactionEmpty
  | raw_ReactionEmoji (emoticon: "string option")
  | raw_ReactionCustomEmoji (document_id: "int option")
  | raw_ReactionPaid
  | raw_Other (tag: string)

record raw_ReactionCount =
  reaction :: raw_Reaction
  count :: int
  chosen_order :: "int option"

subsection \<open>Exceptions\<close>

text \<open>
  \<open>NameError n\<close>: the name \<open>n\<close> is bound neither in the module nor in the builtins.
  \<open>AttributeError a\<close>: the attribute \<open>a\<close> was set on an object that has no such
  attribute and takes none (here: \<^verbatim>\<open>None\<close>). \<open>NotImplementedError\<close>: raised by the
  base class's \<^verbatim>\<open>write\<close>.
\<close>

datatype error =
    NameError string
  | AttributeError string
  | NotImplementedError

subsection \<open>The domain classes\<close>

text \<open>
  Modelled from the spec: the base class \<^verbatim>\<open>Object\<close> is imported
  (\<^verbatim>\<open>from ..object import Object\<close>), not defined in the module. The spec calls the
  client an opaque execution context that this module passes through and never reads;
  the field \<open>client\<close> keeps the argument that each constructor hands to
  \<^verbatim>\<open>super().__init__\<close> (\<open>None\<close> where it hands none).
\<close>

record 'c Object =
  client :: "'c option"

text \<open>The four classes of the \<^verbatim>\<open>ReactionType\<close> hierarchy (lines 102, 145, 169, 193).\<close>

datatype py_class =
    ReactionType_class
  | ReactionTypeEmoji_class
  | ReactionTypeCustomEmoji_class
  | ReactionTypePaid_class

record 'c ReactionType = "'c Object" +
  cls :: py_class
  type :: "string option"
  emoji :: "string option"
  custom_emoji_id :: "int option"

text \<open>\<^verbatim>\<open>ReactionType.__init__(self, *, type=None, emoji=None, custom_emoji_id=None)\<close>\<close>

definition ReactionType_init ::
  "string option \<Rightarrow> string option \<Rightarrow> int option \<Rightarrow> 'c ReactionType" where
  "ReactionType_init t e i =
     \<lparr>client = None, cls = ReactionType_class,
      ReactionType.type = t, emoji = e, custom_emoji_id = i\<rparr>"

text \<open>
  The subclasses' constructors only call the base constructor; the object they
  initialise has the subclass as its class.
\<close>

definition ReactionTypeEmoji_init :: "string option \<Rightarrow> 'c ReactionType" where
  "ReactionTypeEmoji_init e =
     (ReactionType_init (Some ''emoji'') e None)\<lparr>cls := ReactionTypeEmoji_class\<rparr>"

definition ReactionTypeCustomEmoji_init :: "int option \<Rightarrow> 'c ReactionType" where
  "ReactionTypeCustomEmoji_init i =
     (ReactionType_init (Some ''custom_emoji'') None i)\<lparr>cls := ReactionTypeCustomEmoji_class\<rparr>"

definition ReactionTypePaid_init :: "'c ReactionType" where
  "ReactionTypePaid_init =
     (ReactionType_init (Some ''paid'') None None)\<lparr>cls := ReactionTypePaid_class\<rparr>"

record 'c Reaction = "'c Object" +
  type :: "'c ReactionType option"
  count :: "int option"
  chosen_order :: "int option"

text \<open>
  \<^verbatim>\<open>Reaction.__init__(self, *, client=None, type=None, count=None, chosen_order=None,
  is_paid=None)\<close>: the body assigns \<^verbatim>\<open>type\<close>, \<^verbatim>\<open>count\<close> and \<^verbatim>\<open>chosen_order\<close>
  (lines 57 to 61).
\<close>

definition Reaction_init ::
  "'c option \<Rightarrow> 'c ReactionType option \<Rightarrow> int option \<Rightarrow> int option \<Rightarrow> bool option
     \<Rightarrow> 'c Reaction" where
  "Reaction_init c t n k is_paid =
     \<lparr>client = c, Reaction.type = t, count = n, Reaction.chosen_order = k\<rparr>"

record 'c ReactionCount = "'c Object" +
  type :: "'c ReactionType option"
  total_count :: int
  chosen_order :: "int option"

definition ReactionCount_init ::
  "'c ReactionType option \<Rightarrow> int \<Rightarrow> int option \<Rightarrow> 'c ReactionCount" where
  "ReactionCount_init t n k =
     \<lparr>client = None, ReactionCount.type = t, total_count = n,
      ReactionCount.chosen_order = k\<rparr>"

subsection \<open>Decoding and encoding a reaction type\<close>

text \<open>
  \<^verbatim>\<open>ReactionType._parse(client, update)\<close>, lines 123 to 139: an
  \<^verbatim>\<open>if\<close>/\<^verbatim>\<open>elif\<close> chain of \<^verbatim>\<open>isinstance\<close> tests with no \<^verbatim>\<open>else\<close>, so an object
  of any other class falls off the end and the call returns \<^verbatim>\<open>None\<close>.
\<close>

fun ReactionType_parse :: "'c option \<Rightarrow> raw_Reaction \<Rightarrow> 'c ReactionType option" where
  "ReactionType_parse c raw_ReactionEmpty = None"
| "ReactionType_parse c (raw_ReactionEmoji e) = Some (ReactionTypeEmoji_init e)"
| "ReactionType_parse c (raw_ReactionCustomEmoji d) = Some (ReactionTypeCustomEmoji_init d)"
| "ReactionType_parse c raw_ReactionPaid = Some ReactionTypePaid_init"
| "ReactionType_parse c (raw_Other t) = None"

text \<open>
  \<^verbatim>\<open>write(self, client)\<close>, dispatched on the class of \<open>self\<close>. The base class raises
  (line 142); each subclass overrides it (lines 163, 187, 201).
\<close>

definition ReactionType_write :: "'c ReactionType \<Rightarrow> 'c option \<Rightarrow> error + raw_Reaction" where
  "ReactionType_write self c =
     (case cls self of
        ReactionType_class \<Rightarrow> Inl NotImplementedError
      | ReactionTypeEmoji_class \<Rightarrow> Inr (raw_ReactionEmoji (emoji self))
      | ReactionTypeCustomEmoji_class \<Rightarrow> Inr (raw_ReactionCustomEmoji (custom_emoji_id self))
      | ReactionTypePaid_class \<Rightarrow> Inr raw_ReactionPaid)"

subsection \<open>Decoding a reaction and an aggregate\<close>

text \<open>
  \<^verbatim>\<open>Reaction._parse(client, reaction)\<close>, lines 63 to 88: three \<^verbatim>\<open>if\<close> statements
  and no final \<^verbatim>\<open>return\<close>. The first branch builds its argument with
  \<^verbatim>\<open>ReactionEmoji(emoji=reaction.emoticon)\<close> (line 71). The module binds the names
  \<^verbatim>\<open>Optional\<close>, \<^verbatim>\<open>pyrogram\<close>, \<^verbatim>\<open>raw\<close>, \<^verbatim>\<open>Object\<close>, \<^verbatim>\<open>Reaction\<close>,
  \<^verbatim>\<open>ReactionType\<close>, \<^verbatim>\<open>ReactionTypeEmoji\<close>, \<^verbatim>\<open>ReactionTypeCustomEmoji\<close>,
  \<^verbatim>\<open>ReactionTypePaid\<close> and \<^verbatim>\<open>ReactionCount\<close>; the wire class is reachable only as
  \<^verbatim>\<open>raw.types.ReactionEmoji\<close>. So the bare name \<^verbatim>\<open>ReactionEmoji\<close> is unbound and
  looking it up raises \<^verbatim>\<open>NameError\<close> before anything is constructed.
\<close>

fun Reaction_parse :: "'c option \<Rightarrow> raw_Reaction \<Rightarrow> error + 'c Reaction option" where
  "Reaction_parse c (raw_ReactionEmoji e) = Inl (NameError ''ReactionEmoji'')"
| "Reaction_parse c (raw_ReactionCustomEmoji d) =
     Inr (Some (Reaction_init c (Some (ReactionTypeCustomEmoji_init d)) None None None))"
| "Reaction_parse c raw_ReactionPaid =
     Inr (Some (Reaction_init c (Some ReactionTypePaid_init) None None None))"
| "Reaction_parse c raw_ReactionEmpty = Inr None"
| "Reaction_parse c (raw_Other t) = Inr None"

text \<open>
  \<^verbatim>\<open>Reaction._parse_count(client, reaction_count)\<close>, lines 90 to 99: the result of
  \<^verbatim>\<open>Reaction._parse\<close> is assigned to without a test; when it is \<^verbatim>\<open>None\<close> the first
  assignment, \<^verbatim>\<open>reaction.count = ...\<close>, raises \<^verbatim>\<open>AttributeError\<close>.
\<close>

definition Reaction_parse_count ::
  "'c option \<Rightarrow> raw_ReactionCount \<Rightarrow> error + 'c Reaction" where
  "Reaction_parse_count c reaction_count =
     (case Reaction_parse c (reaction reaction_count) of
        Inl err \<Rightarrow> Inl err
      | Inr None \<Rightarrow> Inl (AttributeError ''count'')
      | Inr (Some r) \<Rightarrow>
          Inr (r\<lparr>count := Some (raw_ReactionCount.count reaction_count),
                 Reaction.chosen_order := raw_ReactionCount.chosen_order reaction_count\<rparr>))"

text \<open>\<^verbatim>\<open>ReactionCount._parse(client, update)\<close>, lines 232 to 244.\<close>

definition ReactionCount_parse :: "'c option \<Rightarrow> raw_ReactionCount \<Rightarrow> 'c ReactionCount" where
  "ReactionCount_parse c update =
     ReactionCount_init
       (ReactionType_parse c (reaction update))
       (raw_ReactionCount.count update)
       (raw_ReactionCount.chosen_order update)"

section \<open>Properties\<close>

lemmas ReactionType_inits =
  ReactionType_init_def ReactionTypeEmoji_init_def ReactionTypeCustomEmoji_init_def
  ReactionTypePaid_init_def

subsection \<open>Round trips between a reaction type and its wire value\<close>

text \<open>
  C1. For each concrete variant \<open>v\<close> (a \<^verbatim>\<open>ReactionTypeEmoji\<close> built from any
  \<^verbatim>\<open>emoji\<close>, a \<^verbatim>\<open>ReactionTypeCustomEmoji\<close> built from any \<^verbatim>\<open>custom_emoji_id\<close>,
  the \<^verbatim>\<open>ReactionTypePaid\<close>), \<^verbatim>\<open>v.write(client)\<close> returns a wire value and
  \<^verbatim>\<open>ReactionType._parse\<close> of that wire value is an object equal to \<open>v\<close>: same class
  and same attributes.
\<close>

theorem ReactionType_parse_write:
  "(\<exists>w. ReactionType_write (ReactionTypeEmoji_init e) c = Inr w \<and>
        ReactionType_parse c w = Some (ReactionTypeEmoji_init e)) \<and>
   (\<exists>w. ReactionType_write (ReactionTypeCustomEmoji_init i) c = Inr w \<and>
        ReactionType_parse c w = Some (ReactionTypeCustomEmoji_init i)) \<and>
   (\<exists>w. ReactionType_write ReactionTypePaid_init c = Inr w \<and>
        ReactionType_parse c w = Some ReactionTypePaid_init)"
  by (simp add: ReactionType_write_def ReactionType_inits)

text \<open>
  C2. For each wire value \<open>w\<close> with one of the three known non-empty tags
  (\<^verbatim>\<open>ReactionEmoji\<close> with any \<^verbatim>\<open>emoticon\<close>, \<^verbatim>\<open>ReactionCustomEmoji\<close> with any
  \<^verbatim>\<open>document_id\<close>, \<^verbatim>\<open>ReactionPaid\<close>), \<^verbatim>\<open>ReactionType._parse\<close> returns an object
  and its \<^verbatim>\<open>write\<close> returns \<open>w\<close> again, constructor and field.
\<close>

theorem ReactionType_write_parse:
  "(\<exists>v. ReactionType_parse c (raw_ReactionEmoji e) = Some v \<and>
        ReactionType_write v c = Inr (raw_ReactionEmoji e)) \<and>
   (\<exists>v. ReactionType_parse c (raw_ReactionCustomEmoji d) = Some v \<and>
        ReactionType_write v c = Inr (raw_ReactionCustomEmoji d)) \<and>
   (\<exists>v. ReactionType_parse c raw_ReactionPaid = Some v \<and>
        ReactionType_write v c = Inr raw_ReactionPaid)"
  by (simp add: ReactionType_write_def ReactionType_inits)

subsection \<open>Parsing a single reaction\<close>

text \<open>
  The custom-emoji and paid branches of \<^verbatim>\<open>Reaction._parse\<close> return a
  \<^verbatim>\<open>Reaction\<close> that holds the client and the matching variant, with no count and no
  chosen order.
\<close>

lemma Reaction_parse_custom_emoji:
  "Reaction_parse c (raw_ReactionCustomEmoji d) =
     Inr (Some \<lparr>client = c, Reaction.type = Some (ReactionTypeCustomEmoji_init d),
                count = None, Reaction.chosen_order = None\<rparr>)"
  by (simp add: Reaction_init_def)

lemma Reaction_parse_paid:
  "Reaction_parse c raw_ReactionPaid =
     Inr (Some \<lparr>client = c, Reaction.type = Some ReactionTypePaid_init,
                count = None, Reaction.chosen_order = None\<rparr>)"
  by (simp add: Reaction_init_def)

text \<open>
  C3. The claim: on a plain-emoji wire reaction \<^verbatim>\<open>Reaction._parse\<close> returns, without
  raising, a \<^verbatim>\<open>Reaction\<close> whose type is the emoji variant with that emoticon. The
  code: on \<^verbatim>\<open>raw.types.ReactionEmoji(emoticon="\U0001F44D")\<close> (the thumbs-up
  sign, below as its four UTF-8 bytes) the call raises \<^verbatim>\<open>NameError\<close> for the unbound
  name \<^verbatim>\<open>ReactionEmoji\<close> of line 71, where the sibling \<^verbatim>\<open>ReactionType._parse\<close>
  calls \<^verbatim>\<open>ReactionTypeEmoji\<close>.
\<close>

theorem Reaction_parse_emoji_raises:
  "Reaction_parse c (raw_ReactionEmoji (Some [CHR 0xF0, CHR 0x9F, CHR 0x91, CHR 0x8D])) =
     Inl (NameError ''ReactionEmoji'')"
  by simp

subsection \<open>Parsing an aggregate into a reaction\<close>

text \<open>
  On a custom-emoji or paid inner reaction \<^verbatim>\<open>Reaction._parse_count\<close> copies the
  aggregate's \<^verbatim>\<open>count\<close> and \<^verbatim>\<open>chosen_order\<close> onto the parsed reaction.
\<close>

lemma Reaction_parse_count_custom_emoji:
  "Reaction_parse_count c
     \<lparr>reaction = raw_ReactionCustomEmoji d, count = n, chosen_order = k\<rparr> =
   Inr \<lparr>client = c, Reaction.type = Some (ReactionTypeCustomEmoji_init d),
        count = Some n, Reaction.chosen_order = k\<rparr>"
  by (simp add: Reaction_parse_count_def Reaction_init_def)

lemma Reaction_parse_count_paid:
  "Reaction_parse_count c \<lparr>reaction = raw_ReactionPaid, count = n, chosen_order = k\<rparr> =
   Inr \<lparr>client = c, Reaction.type = Some ReactionTypePaid_init,
        count = Some n, Reaction.chosen_order = k\<rparr>"
  by (simp add: Reaction_parse_count_def Reaction_init_def)

text \<open>
  C4. The claim: on the aggregate with inner reaction
  \<^verbatim>\<open>ReactionEmoji(emoticon="\U0001F44D")\<close>, count 42 and chosen order 3,
  \<^verbatim>\<open>Reaction._parse_count\<close> returns a \<^verbatim>\<open>Reaction\<close> with the emoji variant, count 42
  and chosen order 3. The code: the inner call to \<^verbatim>\<open>Reaction._parse\<close> raises
  \<^verbatim>\<open>NameError\<close> (the unbound name of line 71) and nothing is returned.
\<close>

theorem Reaction_parse_count_emoji_raises:
  "Reaction_parse_count c
     \<lparr>reaction = raw_ReactionEmoji (Some [CHR 0xF0, CHR 0x9F, CHR 0x91, CHR 0x8D]),
      count = 42, chosen_order = Some 3\<rparr> =
   Inl (NameError ''ReactionEmoji'')"
  by (simp add: Reaction_parse_count_def)

text \<open>
  C5. The claim: when the inner reaction is the empty marker or has an unrecognised
  tag, \<^verbatim>\<open>Reaction._parse_count\<close> returns a \<^verbatim>\<open>Reaction\<close> with no type and with the
  aggregate's count and chosen order, and raises nothing. The code: the inner parse
  returns \<^verbatim>\<open>None\<close> and the assignment \<^verbatim>\<open>reaction.count = ...\<close> of line 96 raises
  \<^verbatim>\<open>AttributeError\<close>, whatever the count and the chosen order.
\<close>

theorem Reaction_parse_count_absent_raises:
  "Reaction_parse_count c \<lparr>reaction = raw_ReactionEmpty, count = n, chosen_order = k\<rparr> =
     Inl (AttributeError ''count'') \<and>
   Reaction_parse_count c \<lparr>reaction = raw_Other t, count = n, chosen_order = k\<rparr> =
     Inl (AttributeError ''count'')"
  by (simp add: Reaction_parse_count_def)

subsection \<open>Absence\<close>

text \<open>
  C6. On a wire value of a class outside the known set, \<^verbatim>\<open>ReactionType._parse\<close>
  returns \<^verbatim>\<open>None\<close> and \<^verbatim>\<open>Reaction._parse\<close> returns \<^verbatim>\<open>None\<close>; neither raises.
\<close>

theorem parse_unknown_tag_absent:
  "ReactionType_parse c (raw_Other t) = None \<and> Reaction_parse c (raw_Other t) = Inr None"
  by simp

text \<open>
  C7. \<^verbatim>\<open>ReactionType._parse\<close> returns \<^verbatim>\<open>None\<close> on the empty marker, and on every
  aggregate whose inner reaction is the empty marker \<^verbatim>\<open>ReactionCount._parse\<close> returns
  a \<^verbatim>\<open>ReactionCount\<close> with no type, whose \<^verbatim>\<open>total_count\<close> and \<^verbatim>\<open>chosen_order\<close>
  are the aggregate's \<^verbatim>\<open>count\<close> and \<^verbatim>\<open>chosen_order\<close>.
\<close>

theorem parse_empty_absent:
  "ReactionType_parse c raw_ReactionEmpty = None \<and>
   ReactionCount_parse c \<lparr>reaction = raw_ReactionEmpty, count = n, chosen_order = k\<rparr> =
     \<lparr>client = None, ReactionCount.type = None, total_count = n,
      ReactionCount.chosen_order = k\<rparr>"
  by (simp add: ReactionCount_parse_def ReactionCount_init_def)

subsection \<open>Encoding the base class\<close>

text \<open>
  C8. \<^verbatim>\<open>write\<close> on a \<^verbatim>\<open>ReactionType\<close> object whose class is none of the three
  concrete variants raises \<^verbatim>\<open>NotImplementedError\<close> and returns no wire value.
\<close>

theorem ReactionType_write_base_raises:
  assumes "cls v \<notin>
    {ReactionTypeEmoji_class, ReactionTypeCustomEmoji_class, ReactionTypePaid_class}"
  shows "ReactionType_write v c = Inl NotImplementedError \<and>
         (\<forall>w. ReactionType_write v c \<noteq> Inr w)"
  using assms by (cases "cls v") (simp_all add: ReactionType_write_def)

theorem ReactionType_write_base_raises_witness:
  "cls (ReactionType_init (Some ''emoji'') (Some ''x'') None :: unit ReactionType) \<notin>
     {ReactionTypeEmoji_class, ReactionTypeCustomEmoji_class, ReactionTypePaid_class} \<and>
   ReactionType_write
     (ReactionType_init (Some ''emoji'') (Some ''x'') None :: unit ReactionType) None =
     Inl NotImplementedError"
  using ReactionType_write_base_raises
    [of "ReactionType_init (Some ''emoji'') (Some ''x'') None :: unit ReactionType" None]
  by (simp add: ReactionType_init_def)

subsection \<open>Custom emoji identifiers\<close>

text \<open>
  C9. For every integer \<open>i\<close>, so for every 64-bit one, \<^verbatim>\<open>ReactionType._parse\<close> of
  \<^verbatim>\<open>ReactionCustomEmoji(document_id=i)\<close> returns an object whose
  \<^verbatim>\<open>custom_emoji_id\<close> is \<open>i\<close>, and \<^verbatim>\<open>write\<close> of that object returns a
  \<^verbatim>\<open>ReactionCustomEmoji\<close> whose \<^verbatim>\<open>document_id\<close> is \<open>i\<close>.
\<close>

theorem custom_emoji_id_preserved:
  "\<exists>v. ReactionType_parse c (raw_ReactionCustomEmoji (Some i)) = Some v \<and>
        custom_emoji_id v = Some i \<and>
        ReactionType_write v c = Inr (raw_ReactionCustomEmoji (Some i)) \<and>
        document_id (raw_ReactionCustomEmoji (Some i)) = Some i"
  by (simp add: ReactionType_write_def ReactionType_inits)

subsection \<open>The constructor's unused parameter\<close>

text \<open>
  C10. \<^verbatim>\<open>Reaction(client=c, type=t, count=n, chosen_order=k, is_paid=p)\<close> is the same
  object for every \<open>p\<close>, \<^verbatim>\<open>True\<close>, \<^verbatim>\<open>False\<close> and \<^verbatim>\<open>None\<close> among them: it
  consists of the client, \<^verbatim>\<open>type\<close>, \<^verbatim>\<open>count\<close> and \<^verbatim>\<open>chosen_order\<close>, and
  \<^verbatim>\<open>is_paid\<close> is not stored.
\<close>

theorem Reaction_init_ignores_is_paid:
  "Reaction_init c t n k p = Reaction_init c t n k q \<and>
   Reaction_init c t n k p =
     \<lparr>client = c, Reaction.type = t, count = n, Reaction.chosen_order = k\<rparr>"
  by (simp add: Reaction_init_def)

end
